theory Spec2Isabelle
  imports Main "HOL-Library.Word"
begin

section \<open>The client facade of client.go\<close>

text \<open>
  client.go holds the network configurations, the option types and the facade
  \<open>Client\<close> over three sub-clients. The node, indexer and faucet clients themselves
  live in other files of the package; what client.go calls of them is taken here as a
  parameter (the record \<open>collaborators\<close>), so that every statement about \<open>NewClient\<close>
  and the facade methods holds whatever those functions do.
\<close>

type_synonym uint8 = "8 word"

record NetworkConfig =
  Name :: string
  ChainId :: uint8
  NodeUrl :: string
  IndexerUrl :: string
  FaucetUrl :: string

definition LocalnetConfig :: NetworkConfig where
  "LocalnetConfig = \<lparr>Name = ''localnet'', ChainId = 4,
     NodeUrl = ''http://127.0.0.1:8080/v1'',
     IndexerUrl = ''http://127.0.0.1:8090/v1/graphql'',
     FaucetUrl = ''http://127.0.0.1:8081''\<rparr>"

definition DevnetConfig :: NetworkConfig where
  "DevnetConfig = \<lparr>Name = ''devnet'', ChainId = 0,
     NodeUrl = ''https://api.devnet.aptoslabs.com/v1'',
     IndexerUrl = ''https://api.devnet.aptoslabs.com/v1/graphql'',
     FaucetUrl = ''https://faucet.devnet.aptoslabs.com/''\<rparr>"

definition MainnetConfig :: NetworkConfig where
  "MainnetConfig = \<lparr>Name = ''mainnet'', ChainId = 1,
     NodeUrl = ''https://api.mainnet.aptoslabs.com/v1'',
     IndexerUrl = ''https://api.mainnet.aptoslabs.com/v1/graphql'',
     FaucetUrl = ''''\<rparr>"

text \<open>
  An \<open>*http.Client\<close> is a pointer: \<open>None\<close> is the nil pointer, \<open>Some h\<close> points to
  the transport \<open>h\<close> (an opaque handle). An argument of the variadic \<open>options ...any\<close>
  is either of that type or of some other dynamic type, kept by the name \<open>%T\<close> prints
  (the untyped nil prints as \<open><nil>\<close> and takes the default branch too).
\<close>

type_synonym http_Client = nat

datatype option_arg =
    HttpClientArg "http_Client option"
  | OtherArg string

datatype error =
    OnlyOneHttpClient
  | BadArgType nat string
  | CollaboratorError string

text \<open>
  \<open>OnlyOneHttpClient\<close> is \<open>errors.New("NewClient only accepts one http.Client")\<close>,
  \<open>BadArgType (i+1) ty\<close> is \<open>fmt.Errorf("NewClient arg %d bad type %T", i+1, arg)\<close>;
  \<open>CollaboratorError\<close> stands for every error that a function outside client.go returns.
\<close>

fun usage_error :: "error \<Rightarrow> bool" where
  "usage_error OnlyOneHttpClient = True"
| "usage_error (BadArgType i ty) = True"
| "usage_error (CollaboratorError msg) = False"

record ('n, 'i, 'f) collaborators =
  NewNodeClient :: "string \<Rightarrow> uint8 \<Rightarrow> error + 'n"
  NewNodeClientWithHttpClient :: "string \<Rightarrow> uint8 \<Rightarrow> http_Client \<Rightarrow> error + 'n"
  nodeClient_client :: "'n \<Rightarrow> http_Client option"
  NewIndexerClient :: "http_Client option \<Rightarrow> string \<Rightarrow> 'i"
  NewFaucetClient :: "'n \<Rightarrow> string \<Rightarrow> error + 'f"
  NodeClient_GetChainId :: "'n \<Rightarrow> (error + uint8) \<times> 'n"

text \<open>
  A constructor returns an error or the new client (a constructor that returns no error is
  taken to return a pointer that is not nil). \<open>nodeClient_client\<close> reads the field
  \<open>client\<close> of the node client. \<open>NodeClient_GetChainId\<close> returns its result together
  with the node client as the call leaves it: the method has a pointer receiver and may
  write to it. The \<open>Client\<close> and the faucet client share the node client by pointer; the
  record below holds the node client as \<open>NewClient\<close> leaves it.
\<close>

record ('n, 'i, 'f) Client =
  nodeClient :: 'n
  faucetClient :: "'f option"
  indexerClient :: "'i option"

text \<open>
  The calls that \<open>NewClient\<close> makes outside client.go, in the order it makes them. Any
  network traffic of \<open>NewClient\<close> happens inside one of these calls.
\<close>

datatype call =
    Call_NewNodeClient
  | Call_NewNodeClientWithHttpClient
  | Call_NewIndexerClient
  | Call_NewFaucetClient
  | Call_GetChainId

text \<open>
  The loop over \<open>options\<close> at the head of \<open>NewClient\<close>: \<open>i\<close> is the index of the
  argument at the head of the list, \<open>httpClient\<close> the variable of that name.
\<close>

fun NewClient_options ::
  "option_arg list \<Rightarrow> nat \<Rightarrow> http_Client option \<Rightarrow> error + http_Client option" where
  "NewClient_options [] i httpClient = Inr httpClient"
| "NewClient_options (HttpClientArg v # rest) i httpClient =
     (if httpClient \<noteq> None then Inl OnlyOneHttpClient
      else NewClient_options rest (i + 1) v)"
| "NewClient_options (OtherArg ty # rest) i httpClient = Inl (BadArgType (i + 1) ty)"

definition make_nodeClient ::
  "('n, 'i, 'f) collaborators \<Rightarrow> NetworkConfig \<Rightarrow> http_Client option \<Rightarrow> (error + 'n) \<times> call list" where
  "make_nodeClient env config httpClient =
     (case httpClient of
        None \<Rightarrow> (NewNodeClient env (NodeUrl config) (ChainId config), [Call_NewNodeClient])
      | Some h \<Rightarrow> (NewNodeClientWithHttpClient env (NodeUrl config) (ChainId config) h,
                   [Call_NewNodeClientWithHttpClient]))"

definition make_indexerClient ::
  "('n, 'i, 'f) collaborators \<Rightarrow> NetworkConfig \<Rightarrow> 'n \<Rightarrow> 'i option \<times> call list" where
  "make_indexerClient env config nc =
     (if IndexerUrl config \<noteq> []
      then (Some (NewIndexerClient env (nodeClient_client env nc) (IndexerUrl config)),
            [Call_NewIndexerClient])
      else (None, []))"

definition make_faucetClient ::
  "('n, 'i, 'f) collaborators \<Rightarrow> NetworkConfig \<Rightarrow> 'n \<Rightarrow> (error + 'f option) \<times> call list" where
  "make_faucetClient env config nc =
     (if FaucetUrl config \<noteq> []
      then (case NewFaucetClient env nc (FaucetUrl config) of
              Inl err \<Rightarrow> (Inl err, [Call_NewFaucetClient])
            | Inr fc \<Rightarrow> (Inr (Some fc), [Call_NewFaucetClient]))
      else (Inr None, []))"

definition fetch_chainId ::
  "('n, 'i, 'f) collaborators \<Rightarrow> NetworkConfig \<Rightarrow> 'n \<Rightarrow> 'n \<times> call list" where
  "fetch_chainId env config nc =
     (if ChainId config = 0
      then (snd (NodeClient_GetChainId env nc), [Call_GetChainId])
      else (nc, []))"

text \<open>
  \<open>NewClient\<close>, statement by statement: the option loop, the node client (with or
  without the given transport), the indexer client when \<open>IndexerUrl\<close> is not empty, the
  faucet client when \<open>FaucetUrl\<close> is not empty, the chain id fetch when \<open>ChainId\<close> is 0
  (\<open>_, _ = nodeClient.GetChainId()\<close>: both results dropped), and the \<open>Client\<close>.
  The result is paired with the calls made up to the return.
\<close>

definition NewClient ::
  "('n, 'i, 'f) collaborators \<Rightarrow> NetworkConfig \<Rightarrow> option_arg list
     \<Rightarrow> (error + ('n, 'i, 'f) Client) \<times> call list" where
  "NewClient env config options =
     (case NewClient_options options 0 None of
        Inl err \<Rightarrow> (Inl err, [])
      | Inr httpClient \<Rightarrow>
          (case make_nodeClient env config httpClient of
             (Inl err, calls1) \<Rightarrow> (Inl err, calls1)
           | (Inr nc, calls1) \<Rightarrow>
               (case make_indexerClient env config nc of
                  (ic, calls2) \<Rightarrow>
                    (case make_faucetClient env config nc of
                       (Inl err, calls3) \<Rightarrow> (Inl err, calls1 @ calls2 @ calls3)
                     | (Inr fc, calls3) \<Rightarrow>
                         (case fetch_chainId env config nc of
                            (nc', calls4) \<Rightarrow>
                              (Inr \<lparr>nodeClient = nc', faucetClient = fc, indexerClient = ic\<rparr>,
                               calls1 @ calls2 @ calls3 @ calls4))))))"

subsection \<open>The facade method \<open>GetChainId\<close>\<close>

text \<open>
  \<open>Client.GetChainId\<close> is one line, \<open>return client.nodeClient.GetChainId()\<close>: the
  result of the node client's method goes to the caller as it is, and the \<open>Client\<close>
  holds the node client as the call leaves it.
\<close>

definition Client_GetChainId ::
  "('n, 'i, 'f) collaborators \<Rightarrow> ('n, 'i, 'f) Client \<Rightarrow> (error + uint8) \<times> ('n, 'i, 'f) Client" where
  "Client_GetChainId env client =
     (case NodeClient_GetChainId env (nodeClient client) of
        (r, nc') \<Rightarrow> (r, client\<lparr>nodeClient := nc'\<rparr>))"

subsection \<open>Collaborators for closed examples\<close>

text \<open>
  Every constructor succeeds; the node client is its url, its transport and the number of
  chain id requests it has made; each chain id request fails and is counted.
\<close>

definition offline_node ::
  "(string \<times> http_Client option \<times> nat, string, string) collaborators" where
  "offline_node = \<lparr>
     NewNodeClient = (\<lambda>url cid. Inr (url, None, 0)),
     NewNodeClientWithHttpClient = (\<lambda>url cid h. Inr (url, Some h, 0)),
     nodeClient_client = (\<lambda>nc. fst (snd nc)),
     NewIndexerClient = (\<lambda>h url. url),
     NewFaucetClient = (\<lambda>nc url. Inr url),
     NodeClient_GetChainId =
       (\<lambda>nc. (Inl (CollaboratorError ''connection refused''),
                (fst nc, fst (snd nc), snd (snd nc) + 1)))\<rparr>"

subsection \<open>Classes of option arguments\<close>

text \<open>
  An option of an unrecognised type; an \<open>*http.Client\<close> option; a transport override,
  that is an \<open>*http.Client\<close> option that points to a transport.
\<close>

fun is_other :: "option_arg \<Rightarrow> bool" where
  "is_other (OtherArg ty) = True"
| "is_other (HttpClientArg v) = False"

fun is_client :: "option_arg \<Rightarrow> bool" where
  "is_client (HttpClientArg v) = True"
| "is_client (OtherArg ty) = False"

fun nonnil_client :: "option_arg \<Rightarrow> bool" where
  "nonnil_client (HttpClientArg (Some h)) = True"
| "nonnil_client (HttpClientArg None) = False"
| "nonnil_client (OtherArg ty) = False"

section \<open>The chain metadata cache\<close>

text \<open>
  \<open>NodeClient.GetChainId\<close> and the node-info request it makes are not in client.go,
  which only forwards to them (\<open>Client.GetChainId\<close>) and documents "this will be cached
  forever, or taken directly from the config". The definitions of this section follow
  sections 3 and 4.1 of the specification instead.

  The node is the function \<open>info\<close>: \<open>info k\<close> is the reply to the \<open>k\<close>-th node-info
  request made through this client, an error or a chain id.
\<close>

type_synonym node_info = "nat \<Rightarrow> error + uint8"

text \<open>
  Modelled from the spec: the state of the node client that \<open>GetChainId\<close> works on,
  missing with \<open>NodeClient\<close>. It holds the cache ("the cache remains empty", so a cache
  can be empty) and, to count network calls, the number of node-info requests made so far.
\<close>

record chain_cache =
  cached :: "uint8 option"
  info_requests :: nat

text \<open>
  Modelled from the spec: the cache of a newly constructed node client, missing with
  \<open>NewNodeClient\<close>. Section 3: the cache is "written at most once (first successful
  chain-id fetch or supplied config value)"; a configured chain id of 0 stands for none.
\<close>

definition new_chain_cache :: "uint8 \<Rightarrow> chain_cache" where
  "new_chain_cache chainId =
     \<lparr>cached = (if chainId = 0 then None else Some chainId), info_requests = 0\<rparr>"

text \<open>
  Modelled from the spec: \<open>NodeClient.GetChainId\<close>, missing from the sources. Section
  4.1: "If a chain id was supplied at construction (non-zero), return it without any
  network call. Otherwise, fetch it once from the collaborator node-info endpoint, cache
  the value, and return it on all subsequent calls without refetching." and "Failure:
  propagates the collaborator transport error; the cache remains empty and a later call
  may retry."
\<close>

definition GetChainId :: "node_info \<Rightarrow> chain_cache \<Rightarrow> (error + uint8) \<times> chain_cache" where
  "GetChainId info s =
     (case cached s of
        Some v \<Rightarrow> (Inr v, s)
      | None \<Rightarrow>
          (case info (info_requests s) of
             Inl err \<Rightarrow> (Inl err, s\<lparr>info_requests := info_requests s + 1\<rparr>)
           | Inr v \<Rightarrow> (Inr v, s\<lparr>cached := Some v, info_requests := info_requests s + 1\<rparr>)))"

text \<open>\<open>n\<close> calls of \<open>GetChainId\<close> one after the other, with their results in order.\<close>

fun GetChainId_calls ::
  "node_info \<Rightarrow> nat \<Rightarrow> chain_cache \<Rightarrow> (error + uint8) list \<times> chain_cache" where
  "GetChainId_calls info 0 s = ([], s)"
| "GetChainId_calls info (Suc n) s =
     (case GetChainId info s of
        (r, s') \<Rightarrow> (case GetChainId_calls info n s' of (rs, s'') \<Rightarrow> (r # rs, s'')))"

text \<open>The number of node-info requests made so far that the node answered with a chain id.\<close>

definition fetched :: "node_info \<Rightarrow> chain_cache \<Rightarrow> nat" where
  "fetched info s = length (filter (\<lambda>k. \<not> isl (info k)) [0..<info_requests s])"

text \<open>A node whose first reply is an error and which reports chain id 34 from then on.\<close>

definition flaky :: node_info where
  "flaky k = (if k = 0 then Inl (CollaboratorError ''connection refused'') else Inr 34)"

section \<open>Properties of the facade\<close>

subsection \<open>The option loop of \<open>NewClient\<close>\<close>

lemma NewClient_options_usage:
  "NewClient_options options i hc = Inl e \<Longrightarrow> usage_error e"
  by (induction options i hc rule: NewClient_options.induct) (auto split: if_splits)

lemma other_refused:
  "list_ex is_other options \<Longrightarrow> isl (NewClient_options options i hc)"
  by (induction options i hc rule: NewClient_options.induct) auto

lemma client_after_transport_refused:
  "hc \<noteq> None \<Longrightarrow> list_ex is_client options \<Longrightarrow> isl (NewClient_options options i hc)"
  by (induction options i hc rule: NewClient_options.induct) auto

lemma nonnil_is_client: "nonnil_client x \<Longrightarrow> is_client x"
  by (cases x rule: nonnil_client.cases) auto

lemma some_nonnil:
  assumes "1 \<le> length (filter nonnil_client options)"
  shows "list_ex is_client options"
proof -
  from assms have "filter nonnil_client options \<noteq> []"
    by auto
  then obtain y where "y \<in> set options" "nonnil_client y"
    by (auto simp: filter_empty_conv)
  then show ?thesis
    unfolding list_ex_iff using nonnil_is_client by blast
qed

lemma two_transports_refused:
  "2 \<le> length (filter nonnil_client options) \<Longrightarrow> isl (NewClient_options options i hc)"
proof (induction options i hc rule: NewClient_options.induct)
  case (1 i httpClient)
  then show ?case by simp
next
  case (2 v rest i httpClient)
  show ?case
  proof (cases "httpClient \<noteq> None")
    case True
    then show ?thesis by simp
  next
    case False
    show ?thesis
    proof (cases v)
      case None
      with "2.prems" have "2 \<le> length (filter nonnil_client rest)" by simp
      from "2.IH" [OF _ this] False show ?thesis by simp
    next
      case (Some h)
      with "2.prems" have "1 \<le> length (filter nonnil_client rest)" by simp
      then have "list_ex is_client rest" by (rule some_nonnil)
      with Some have "isl (NewClient_options rest (i + 1) v)"
        by (intro client_after_transport_refused) simp_all
      with False show ?thesis by simp
    qed
  qed
next
  case (3 ty rest i httpClient)
  then show ?case by simp
qed

lemma NewClient_Inl_nil:
  "NewClient env config options = (Inl e, []) \<longleftrightarrow> NewClient_options options 0 None = Inl e"
  by (auto simp: NewClient_def make_nodeClient_def make_indexerClient_def make_faucetClient_def fetch_chainId_def
      split: sum.splits option.splits prod.splits if_splits)

text \<open>
  Claim C7. A transport override is an \<open>*http.Client\<close> option that points to a
  transport. Whenever some option has an unrecognised type, or two or more transport
  overrides are supplied, \<open>NewClient\<close> returns a usage error, with no client and with
  no call made outside client.go (the call list is empty, so no network call has been
  attempted). No option at all, and one transport override alone, are not refused.
\<close>

theorem NewClient_usage_errors:
  "((\<exists>j < length options. is_other (options ! j)) \<or> 2 \<le> length (filter nonnil_client options)
      \<longrightarrow> (\<exists>e. usage_error e \<and> NewClient env config options = (Inl e, [])))
   \<and> \<not> (\<exists>e. NewClient env config [] = (Inl e, []))
   \<and> \<not> (\<exists>e. NewClient env config [HttpClientArg (Some h)] = (Inl e, []))"
proof -
  have "isl (NewClient_options options 0 None)"
    if "(\<exists>j < length options. is_other (options ! j)) \<or> 2 \<le> length (filter nonnil_client options)"
    using that other_refused two_transports_refused
    by (auto simp: list_ex_length)
  then have "\<exists>e. usage_error e \<and> NewClient env config options = (Inl e, [])"
    if "(\<exists>j < length options. is_other (options ! j)) \<or> 2 \<le> length (filter nonnil_client options)"
    using that by (auto simp: NewClient_Inl_nil isl_def dest: NewClient_options_usage)
  then show ?thesis
    by (simp add: NewClient_Inl_nil)
qed

theorem NewClient_usage_errors_witness:
  "2 \<le> length (filter nonnil_client [HttpClientArg (Some 1), HttpClientArg (Some 2)])
   \<and> NewClient offline_node LocalnetConfig [HttpClientArg (Some 1), HttpClientArg (Some 2)]
       = (Inl OnlyOneHttpClient, [])
   \<and> 1 < length [HttpClientArg (Some 1), OtherArg ''string'']
   \<and> is_other ([HttpClientArg (Some 1), OtherArg ''string''] ! 1)
   \<and> NewClient offline_node LocalnetConfig [HttpClientArg (Some 1), OtherArg ''string'']
       = (Inl (BadArgType 2 ''string''), [])
   \<and> usage_error OnlyOneHttpClient
   \<and> usage_error (BadArgType 2 ''string'')
   \<and> NewClient offline_node LocalnetConfig [HttpClientArg (Some 1)]
       = (Inr \<lparr>nodeClient = (''http://127.0.0.1:8080/v1'', Some 1, 0),
               faucetClient = Some ''http://127.0.0.1:8081'',
               indexerClient = Some ''http://127.0.0.1:8090/v1/graphql''\<rparr>,
          [Call_NewNodeClientWithHttpClient, Call_NewIndexerClient, Call_NewFaucetClient])"
proof -
  let ?two = "[HttpClientArg (Some 1), HttpClientArg (Some 2)]"
  let ?bad = "[HttpClientArg (Some 1), OtherArg ''string'']"
  have two: "2 \<le> length (filter nonnil_client ?two)"
    by simp
  have bad: "\<exists>j < length ?bad. is_other (?bad ! j)"
    by (rule exI [of _ 1]) simp
  from NewClient_usage_errors [of ?two offline_node LocalnetConfig] two
  obtain e where e: "usage_error e" "NewClient offline_node LocalnetConfig ?two = (Inl e, [])"
    by blast
  from NewClient_usage_errors [of ?bad offline_node LocalnetConfig] bad
  obtain e' where e': "usage_error e'" "NewClient offline_node LocalnetConfig ?bad = (Inl e', [])"
    by blast
  have "e = OnlyOneHttpClient"
    using e(2) by (simp add: NewClient_def)
  moreover have "e' = BadArgType 2 ''string''"
    using e'(2) by (auto simp: NewClient_def numeral_2_eq_2)
  moreover have "NewClient offline_node LocalnetConfig [HttpClientArg (Some 1)]
       = (Inr \<lparr>nodeClient = (''http://127.0.0.1:8080/v1'', Some 1, 0),
               faucetClient = Some ''http://127.0.0.1:8081'',
               indexerClient = Some ''http://127.0.0.1:8090/v1/graphql''\<rparr>,
          [Call_NewNodeClientWithHttpClient, Call_NewIndexerClient, Call_NewFaucetClient])"
    by (simp add: NewClient_def offline_node_def LocalnetConfig_def make_nodeClient_def
        make_indexerClient_def make_faucetClient_def fetch_chainId_def)
  ultimately show ?thesis
    using e e' two by simp
qed

subsection \<open>The chain id fetch at construction\<close>

lemma NewClient_Inr_parts:
  assumes "NewClient env config options = (Inr client, calls)"
  shows "\<exists>hc nc calls1 fc calls3.
           NewClient_options options 0 None = Inr hc
         \<and> make_nodeClient env config hc = (Inr nc, calls1)
         \<and> make_faucetClient env config nc = (Inr fc, calls3)
         \<and> client = \<lparr>nodeClient = fst (fetch_chainId env config nc), faucetClient = fc,
                      indexerClient = fst (make_indexerClient env config nc)\<rparr>
         \<and> calls = calls1 @ snd (make_indexerClient env config nc) @ calls3
                     @ snd (fetch_chainId env config nc)"
  using assms
  by (auto simp: NewClient_def split: sum.splits prod.splits)

lemma NewClient_built:
  assumes "NewClient_options options 0 None = Inr hc"
    and "fst (make_nodeClient env config hc) = Inr nc"
    and "fst (make_faucetClient env config nc) = Inr fc"
  shows "NewClient env config options
           = (Inr \<lparr>nodeClient = fst (fetch_chainId env config nc), faucetClient = fc,
                   indexerClient = fst (make_indexerClient env config nc)\<rparr>,
              snd (make_nodeClient env config hc) @ snd (make_indexerClient env config nc)
                @ snd (make_faucetClient env config nc) @ snd (fetch_chainId env config nc))"
  using assms
  by (auto simp: NewClient_def split: sum.splits prod.splits)

text \<open>
  Claim C10. Let the configured \<open>ChainId\<close> be 0. Whenever the options are accepted and
  the node client \<open>nc\<close> and the faucet client are built, \<open>NewClient\<close> calls
  \<open>GetChainId\<close> on \<open>nc\<close>, as its last call, and returns a client, whatever that call
  returns: the client holds the node client as the call left it, and neither the chain
  id nor the error. Every client that \<open>NewClient\<close> returns was built this way, and a
  later \<open>Client.GetChainId\<close> on it is the second call of the node client's method, on
  the node client as the first call left it; what that call returns, an error included,
  goes to the caller. With a \<open>ChainId\<close> other than 0 the call is not made. Replacing
  what the eager call returns by anything else (\<open>r\<close>), while keeping what it does to
  the node client, leaves the result of \<open>NewClient\<close> unchanged.
\<close>

theorem NewClient_eager_chain_id:
  "(ChainId config = 0 \<longrightarrow>
      (\<forall>hc nc fc.
         NewClient_options options 0 None = Inr hc
           \<and> fst (make_nodeClient env config hc) = Inr nc
           \<and> fst (make_faucetClient env config nc) = Inr fc
         \<longrightarrow> NewClient env config options
               = (Inr \<lparr>nodeClient = snd (NodeClient_GetChainId env nc), faucetClient = fc,
                       indexerClient = fst (make_indexerClient env config nc)\<rparr>,
                  snd (make_nodeClient env config hc) @ snd (make_indexerClient env config nc)
                    @ snd (make_faucetClient env config nc) @ [Call_GetChainId]))
    \<and> (\<forall>client calls.
         NewClient env config options = (Inr client, calls)
         \<longrightarrow> (\<exists>hc nc.
                NewClient_options options 0 None = Inr hc
              \<and> fst (make_nodeClient env config hc) = Inr nc
              \<and> nodeClient client = snd (NodeClient_GetChainId env nc)
              \<and> last calls = Call_GetChainId
              \<and> Client_GetChainId env client
                  = (fst (NodeClient_GetChainId env (snd (NodeClient_GetChainId env nc))),
                     client\<lparr>nodeClient :=
                       snd (NodeClient_GetChainId env (snd (NodeClient_GetChainId env nc)))\<rparr>))))
   \<and> (ChainId config \<noteq> 0 \<longrightarrow> Call_GetChainId \<notin> set (snd (NewClient env config options)))
   \<and> NewClient (env\<lparr>NodeClient_GetChainId := \<lambda>nc. (r nc, snd (NodeClient_GetChainId env nc))\<rparr>)
        config options
       = NewClient env config options"
proof -
  have fetch: "fetch_chainId env config nc = (snd (NodeClient_GetChainId env nc), [Call_GetChainId])"
    if "ChainId config = 0" for nc
    using that by (simp add: fetch_chainId_def)
  have built: "NewClient env config options
              = (Inr \<lparr>nodeClient = snd (NodeClient_GetChainId env nc), faucetClient = fc,
                      indexerClient = fst (make_indexerClient env config nc)\<rparr>,
                 snd (make_nodeClient env config hc) @ snd (make_indexerClient env config nc)
                   @ snd (make_faucetClient env config nc) @ [Call_GetChainId])"
    if "ChainId config = 0"
      "NewClient_options options 0 None = Inr hc"
      "fst (make_nodeClient env config hc) = Inr nc"
      "fst (make_faucetClient env config nc) = Inr fc"
    for hc nc fc
    using NewClient_built [OF that(2,3,4)] by (simp add: fetch [OF that(1)])
  have later: "\<exists>hc nc.
               NewClient_options options 0 None = Inr hc
             \<and> fst (make_nodeClient env config hc) = Inr nc
             \<and> nodeClient client = snd (NodeClient_GetChainId env nc)
             \<and> last calls = Call_GetChainId
             \<and> Client_GetChainId env client
                 = (fst (NodeClient_GetChainId env (snd (NodeClient_GetChainId env nc))),
                    client\<lparr>nodeClient :=
                      snd (NodeClient_GetChainId env (snd (NodeClient_GetChainId env nc)))\<rparr>)"
    if zero: "ChainId config = 0" and run: "NewClient env config options = (Inr client, calls)"
    for client calls
  proof -
    from NewClient_Inr_parts [OF run] obtain hc nc calls1 fc calls3 where
      p: "NewClient_options options 0 None = Inr hc"
         "make_nodeClient env config hc = (Inr nc, calls1)"
         "client = \<lparr>nodeClient = fst (fetch_chainId env config nc), faucetClient = fc,
                      indexerClient = fst (make_indexerClient env config nc)\<rparr>"
         "calls = calls1 @ snd (make_indexerClient env config nc) @ calls3
                     @ snd (fetch_chainId env config nc)"
      by blast
    from p(3) have nc: "nodeClient client = snd (NodeClient_GetChainId env nc)"
      by (simp add: fetch [OF zero])
    from p(4) have "last calls = Call_GetChainId"
      by (simp add: fetch [OF zero])
    moreover have "Client_GetChainId env client
                 = (fst (NodeClient_GetChainId env (snd (NodeClient_GetChainId env nc))),
                    client\<lparr>nodeClient :=
                      snd (NodeClient_GetChainId env (snd (NodeClient_GetChainId env nc)))\<rparr>)"
      by (simp add: Client_GetChainId_def nc split: prod.splits)
    ultimately show ?thesis
      using p(1,2) nc by auto
  qed
  have no_call: "Call_GetChainId \<notin> set (snd (NewClient env config options))"
    if "ChainId config \<noteq> 0"
    using that
    by (auto simp: NewClient_def make_nodeClient_def make_indexerClient_def make_faucetClient_def
        fetch_chainId_def split: sum.splits option.splits prod.splits if_splits)
  have dropped: "NewClient (env\<lparr>NodeClient_GetChainId := \<lambda>nc. (r nc, snd (NodeClient_GetChainId env nc))\<rparr>)
        config options = NewClient env config options"
    by (auto simp: NewClient_def make_nodeClient_def make_indexerClient_def make_faucetClient_def
        fetch_chainId_def split: sum.splits option.splits prod.splits if_splits)
  from built later no_call dropped show ?thesis
    by blast
qed

theorem NewClient_eager_chain_id_witness:
  "ChainId DevnetConfig = 0
   \<and> NewClient_options [] 0 None = Inr None
   \<and> fst (make_nodeClient offline_node DevnetConfig None)
       = Inr (''https://api.devnet.aptoslabs.com/v1'', None, 0)
   \<and> fst (make_faucetClient offline_node DevnetConfig (''https://api.devnet.aptoslabs.com/v1'', None, 0))
       = Inr (Some ''https://faucet.devnet.aptoslabs.com/'')
   \<and> NodeClient_GetChainId offline_node (''https://api.devnet.aptoslabs.com/v1'', None, 0)
       = (Inl (CollaboratorError ''connection refused''),
          (''https://api.devnet.aptoslabs.com/v1'', None, 1))
   \<and> NewClient offline_node DevnetConfig []
       = (Inr \<lparr>nodeClient = (''https://api.devnet.aptoslabs.com/v1'', None, 1),
               faucetClient = Some ''https://faucet.devnet.aptoslabs.com/'',
               indexerClient = Some ''https://api.devnet.aptoslabs.com/v1/graphql''\<rparr>,
          [Call_NewNodeClient, Call_NewIndexerClient, Call_NewFaucetClient, Call_GetChainId])
   \<and> Client_GetChainId offline_node
         \<lparr>nodeClient = (''https://api.devnet.aptoslabs.com/v1'', None, 1),
          faucetClient = Some ''https://faucet.devnet.aptoslabs.com/'',
          indexerClient = Some ''https://api.devnet.aptoslabs.com/v1/graphql''\<rparr>
       = (Inl (CollaboratorError ''connection refused''),
          \<lparr>nodeClient = (''https://api.devnet.aptoslabs.com/v1'', None, 2),
           faucetClient = Some ''https://faucet.devnet.aptoslabs.com/'',
           indexerClient = Some ''https://api.devnet.aptoslabs.com/v1/graphql''\<rparr>)
   \<and> ChainId LocalnetConfig \<noteq> 0
   \<and> Call_GetChainId \<notin> set (snd (NewClient offline_node LocalnetConfig []))
   \<and> NewClient offline_node LocalnetConfig []
       = (Inr \<lparr>nodeClient = (''http://127.0.0.1:8080/v1'', None, 0),
               faucetClient = Some ''http://127.0.0.1:8081'',
               indexerClient = Some ''http://127.0.0.1:8090/v1/graphql''\<rparr>,
          [Call_NewNodeClient, Call_NewIndexerClient, Call_NewFaucetClient])"
proof -
  let ?nc = "(''https://api.devnet.aptoslabs.com/v1'', None :: http_Client option, 0 :: nat)"
  have z: "ChainId DevnetConfig = 0"
    by (simp add: DevnetConfig_def)
  have h: "NewClient_options [] 0 None = Inr None"
    "fst (make_nodeClient offline_node DevnetConfig None) = Inr ?nc"
    "fst (make_faucetClient offline_node DevnetConfig ?nc)
       = Inr (Some ''https://faucet.devnet.aptoslabs.com/'')"
    by (simp_all add: make_nodeClient_def make_faucetClient_def offline_node_def DevnetConfig_def)
  have g: "NodeClient_GetChainId offline_node ?nc
       = (Inl (CollaboratorError ''connection refused''),
          (''https://api.devnet.aptoslabs.com/v1'', None, 1))"
    by (simp add: offline_node_def)
  from NewClient_eager_chain_id [of DevnetConfig "[]" offline_node] z h
  have run: "NewClient offline_node DevnetConfig []
       = (Inr \<lparr>nodeClient = snd (NodeClient_GetChainId offline_node ?nc),
               faucetClient = Some ''https://faucet.devnet.aptoslabs.com/'',
               indexerClient = fst (make_indexerClient offline_node DevnetConfig ?nc)\<rparr>,
          snd (make_nodeClient offline_node DevnetConfig None)
            @ snd (make_indexerClient offline_node DevnetConfig ?nc)
            @ snd (make_faucetClient offline_node DevnetConfig ?nc) @ [Call_GetChainId])"
    by blast
  from run g have devnet: "NewClient offline_node DevnetConfig []
       = (Inr \<lparr>nodeClient = (''https://api.devnet.aptoslabs.com/v1'', None, 1),
               faucetClient = Some ''https://faucet.devnet.aptoslabs.com/'',
               indexerClient = Some ''https://api.devnet.aptoslabs.com/v1/graphql''\<rparr>,
          [Call_NewNodeClient, Call_NewIndexerClient, Call_NewFaucetClient, Call_GetChainId])"
    by (simp add: make_nodeClient_def make_indexerClient_def make_faucetClient_def
        offline_node_def DevnetConfig_def)
  have later: "Client_GetChainId offline_node
         \<lparr>nodeClient = (''https://api.devnet.aptoslabs.com/v1'', None, 1),
          faucetClient = Some ''https://faucet.devnet.aptoslabs.com/'',
          indexerClient = Some ''https://api.devnet.aptoslabs.com/v1/graphql''\<rparr>
       = (Inl (CollaboratorError ''connection refused''),
          \<lparr>nodeClient = (''https://api.devnet.aptoslabs.com/v1'', None, 2),
           faucetClient = Some ''https://faucet.devnet.aptoslabs.com/'',
           indexerClient = Some ''https://api.devnet.aptoslabs.com/v1/graphql''\<rparr>)"
    by (simp add: Client_GetChainId_def offline_node_def)
  have nz: "ChainId LocalnetConfig \<noteq> 0"
    by (simp add: LocalnetConfig_def)
  have localnet: "NewClient offline_node LocalnetConfig []
       = (Inr \<lparr>nodeClient = (''http://127.0.0.1:8080/v1'', None, 0),
               faucetClient = Some ''http://127.0.0.1:8081'',
               indexerClient = Some ''http://127.0.0.1:8090/v1/graphql''\<rparr>,
          [Call_NewNodeClient, Call_NewIndexerClient, Call_NewFaucetClient])"
    by (simp add: NewClient_def make_nodeClient_def make_indexerClient_def make_faucetClient_def
        fetch_chainId_def offline_node_def LocalnetConfig_def)
  from NewClient_eager_chain_id [of LocalnetConfig "[]" offline_node] nz
  have quiet: "Call_GetChainId \<notin> set (snd (NewClient offline_node LocalnetConfig []))"
    by blast
  from z h g devnet later nz quiet localnet show ?thesis
    by simp
qed

section \<open>Properties of the chain metadata cache\<close>

lemma GetChainId_cached:
  "cached s = Some v \<Longrightarrow> GetChainId info s = (Inr v, s)"
  by (simp add: GetChainId_def)

lemma GetChainId_calls_cached:
  "cached s = Some v \<Longrightarrow> GetChainId_calls info n s = (replicate n (Inr v), s)"
  by (induction n) (simp_all add: GetChainId_cached)

lemma fetched_step:
  "fetched info s \<le> 1 \<Longrightarrow> (cached s = None \<Longrightarrow> fetched info s = 0) \<Longrightarrow>
     fetched info (snd (GetChainId info s)) \<le> 1
   \<and> (cached (snd (GetChainId info s)) = None \<longrightarrow> fetched info (snd (GetChainId info s)) = 0)"
  by (auto simp: GetChainId_def fetched_def split: option.splits sum.splits)

lemma fetched_calls:
  "fetched info s \<le> 1 \<Longrightarrow> (cached s = None \<Longrightarrow> fetched info s = 0) \<Longrightarrow>
     fetched info (snd (GetChainId_calls info n s)) \<le> 1"
proof (induction n arbitrary: s)
  case 0
  then show ?case by simp
next
  case (Suc n)
  from fetched_step [OF Suc.prems(1)] Suc.prems(2)
  have "fetched info (snd (GetChainId info s)) \<le> 1"
    "cached (snd (GetChainId info s)) = None \<Longrightarrow> fetched info (snd (GetChainId info s)) = 0"
    by blast+
  from Suc.IH [OF this] show ?case
    by (auto split: prod.splits)
qed

text \<open>
  Claim C3. A client built with a non-zero chain id returns it and makes no request
  (the state, with its request count, is unchanged). With an empty cache one request is
  made: a chain id in reply is returned and cached, an error in reply is returned and
  leaves the cache empty, so that the next call asks again. Once a value is cached every
  later call returns it, makes no request and leaves the cache as it is. Over any number
  of calls on a new client, at most one request is answered with a chain id.
\<close>

theorem GetChainId_cache:
  "(chainId \<noteq> 0 \<longrightarrow>
      GetChainId info (new_chain_cache chainId) = (Inr chainId, new_chain_cache chainId))
   \<and> (cached s = None \<and> info (info_requests s) = Inr v \<longrightarrow>
        GetChainId info s = (Inr v, s\<lparr>cached := Some v, info_requests := info_requests s + 1\<rparr>))
   \<and> (cached s = None \<and> info (info_requests s) = Inl err \<longrightarrow>
        GetChainId info s = (Inl err, s\<lparr>info_requests := info_requests s + 1\<rparr>))
   \<and> (cached s = Some v \<longrightarrow> GetChainId_calls info n s = (replicate n (Inr v), s))
   \<and> fetched info (snd (GetChainId_calls info n (new_chain_cache chainId))) \<le> 1"
proof -
  have "fetched info (snd (GetChainId_calls info n (new_chain_cache chainId))) \<le> 1"
    by (rule fetched_calls) (simp_all add: fetched_def new_chain_cache_def)
  then show ?thesis
    by (simp add: GetChainId_calls_cached) (simp add: GetChainId_def new_chain_cache_def)
qed

theorem GetChainId_cache_witness:
  "(4 :: uint8) \<noteq> 0
   \<and> GetChainId flaky (new_chain_cache 4) = (Inr 4, new_chain_cache 4)
   \<and> cached (new_chain_cache 0) = None
   \<and> flaky (info_requests (new_chain_cache 0)) = Inl (CollaboratorError ''connection refused'')
   \<and> GetChainId flaky (new_chain_cache 0) = (Inl (CollaboratorError ''connection refused''), \<lparr>cached = None, info_requests = 1\<rparr>)
   \<and> flaky (info_requests \<lparr>cached = None, info_requests = 1\<rparr>) = Inr 34
   \<and> GetChainId flaky \<lparr>cached = None, info_requests = 1\<rparr> = (Inr 34, \<lparr>cached = Some 34, info_requests = 2\<rparr>)
   \<and> GetChainId_calls flaky 3 \<lparr>cached = Some 34, info_requests = 2\<rparr>
       = ([Inr 34, Inr 34, Inr 34], \<lparr>cached = Some 34, info_requests = 2\<rparr>)"
  using GetChainId_cache [of 4 flaky "new_chain_cache 0" 34 "CollaboratorError ''connection refused''" 3]
    GetChainId_cache [of 4 flaky "\<lparr>cached = None, info_requests = 1\<rparr>" 34 "CollaboratorError ''connection refused''" 3]
    GetChainId_cache [of 4 flaky "\<lparr>cached = Some 34, info_requests = 2\<rparr>" 34 "CollaboratorError ''connection refused''" 3]
  by (simp add: flaky_def new_chain_cache_def numeral_3_eq_3)

end
